theory Spec2Isabelle
  imports Complex_Main "HOL-Library.AList" "HOL-Library.Sublist" "HOL-Library.Multiset"
begin

section \<open>Python values, errors and strings\<close>

text \<open>
  The library handles decoded JSON and a few values of its own (tuples as keys of the
  result mappings).  One datatype carries them all.  A JSON number without fraction
  or exponent is a \<open>PInt\<close>, any other one a \<open>PFloat\<close> holding the exact value
  of the double; the library never computes with the measurements it reshapes.
\<close>

datatype pyval =
    PNone
  | PBool bool
  | PInt int
  | PFloat rat
  | PStr string
  | PList "pyval list"
  | PTuple "pyval list"
  | PDict "(pyval \<times> pyval) list"

type_synonym pydict = "(pyval \<times> pyval) list"

datatype pyerror =
    AssertionError
  | NameError
  | UnboundLocalError
  | KeyError
  | IndexError
  | TypeError
  | AttributeError
  | RuntimeError
  | FetchError

definition has_key :: "'k \<Rightarrow> ('k \<times> 'v) list \<Rightarrow> bool" where
  "has_key k d = (map_of d k \<noteq> None)"

definition truthy :: "pyval \<Rightarrow> bool" where
  "truthy v = (case v of
       PNone \<Rightarrow> False
     | PBool b \<Rightarrow> b
     | PInt n \<Rightarrow> n \<noteq> 0
     | PFloat r \<Rightarrow> r \<noteq> 0
     | PStr s \<Rightarrow> s \<noteq> []
     | PList xs \<Rightarrow> xs \<noteq> []
     | PTuple xs \<Rightarrow> xs \<noteq> []
     | PDict d \<Rightarrow> d \<noteq> [])"

fun hashable :: "pyval \<Rightarrow> bool" where
  "hashable (PList xs) = False"
| "hashable (PDict d) = False"
| "hashable (PTuple xs) = list_all hashable xs"
| "hashable v = True"

subsection \<open>Dictionaries\<close>

text \<open>
  A dictionary is an association list in the order in which its keys were first
  inserted.  Python compares keys with \<open>==\<close>: \<open>True\<close>, \<open>1\<close> and \<open>1.0\<close> are
  one key.  \<open>norm_key\<close> maps the hashable values that are equal in Python to one
  representative; \<open>d[k] = v\<close> on an existing key keeps the key object that is
  already stored and replaces its value.
\<close>

fun norm_key :: "pyval \<Rightarrow> pyval" where
  "norm_key (PBool b) = PInt (if b then 1 else 0)"
| "norm_key (PFloat r) = (if of_int \<lfloor>r\<rfloor> = r then PInt \<lfloor>r\<rfloor> else PFloat r)"
| "norm_key (PTuple xs) = PTuple (map norm_key xs)"
| "norm_key v = v"

definition dict_get :: "(pyval \<times> 'v) list \<Rightarrow> pyval \<Rightarrow> 'v option" where
  "dict_get d k = map_of (map (\<lambda>(k', v). (norm_key k', v)) d) (norm_key k)"

fun dict_set :: "pyval \<Rightarrow> 'v \<Rightarrow> (pyval \<times> 'v) list \<Rightarrow> (pyval \<times> 'v) list" where
  "dict_set k v [] = [(k, v)]"
| "dict_set k v ((k', v') # d) =
     (if norm_key k' = norm_key k then (k', v) # d else (k', v') # dict_set k v d)"

definition dict_del :: "pyval \<Rightarrow> (pyval \<times> 'v) list \<Rightarrow> (pyval \<times> 'v) list" where
  "dict_del k d = filter (\<lambda>(k', v). norm_key k' \<noteq> norm_key k) d"

text \<open>
  Python 2 enumerates a dictionary in the order of its hash table, which depends on
  the hashes of the keys and on the history of the table.  The model does not compute
  it: an enumeration order is a parameter that sends the list of keys to a permutation
  of its positions.
\<close>

typedef 'k key_order = "{f :: 'k list \<Rightarrow> nat list. \<forall>ks. mset (f ks) = mset [0..<length ks]}"
  morphisms positions Abs_key_order
  by (rule exI [of _ "\<lambda>ks. [0..<length ks]"]) simp

definition items_in :: "'k key_order \<Rightarrow> ('k \<times> 'v) list \<Rightarrow> ('k \<times> 'v) list" where
  "items_in ord d = map (nth d) (positions ord (map fst d))"

text \<open>Two enumeration orders for the examples: as inserted, and rotated by one.\<close>

definition insertion_order :: "'k key_order" where
  "insertion_order = Abs_key_order (\<lambda>ks. [0..<length ks])"

definition rotated_order :: "'k key_order" where
  "rotated_order = Abs_key_order (\<lambda>ks. rotate1 [0..<length ks])"

subsection \<open>Strings\<close>

definition char_upper :: "char \<Rightarrow> char" where
  "char_upper c = (case map_of (zip ''abcdefghijklmnopqrstuvwxyz'' ''ABCDEFGHIJKLMNOPQRSTUVWXYZ'') c of
       Some u \<Rightarrow> u | None \<Rightarrow> c)"

definition char_lower :: "char \<Rightarrow> char" where
  "char_lower c = (case map_of (zip ''ABCDEFGHIJKLMNOPQRSTUVWXYZ'' ''abcdefghijklmnopqrstuvwxyz'') c of
       Some l \<Rightarrow> l | None \<Rightarrow> c)"

definition upper :: "string \<Rightarrow> string" where
  "upper s = map char_upper s"

definition lower :: "string \<Rightarrow> string" where
  "lower s = map char_lower s"

fun contains :: "string \<Rightarrow> string \<Rightarrow> bool" where
  "contains ss [] = (ss = [])"
| "contains ss (c # cs) = (prefix ss (c # cs) \<or> contains ss cs)"

fun join :: "string \<Rightarrow> string list \<Rightarrow> string" where
  "join sep [] = []"
| "join sep [x] = x"
| "join sep (x # y # ys) = x @ sep @ join sep (y # ys)"

definition digit :: "nat \<Rightarrow> char" where
  "digit d = ''0123456789'' ! d"

fun str_of_nat :: "nat \<Rightarrow> string" where
  "str_of_nat n =
     (if n < 10 then [digit n]
      else str_of_nat (n div 10) @ [digit (n mod 10)])"

definition str_of_int :: "int \<Rightarrow> string" where
  "str_of_int i = (if i < 0 then CHR ''-'' # str_of_nat (nat (- i)) else str_of_nat (nat i))"

subsection \<open>The interpreter\<close>

text \<open>
  What the model takes from the Python interpreter as given: how it prints floats and
  containers (\<open>container_repr\<close>), which strings \<open>int\<close> accepts (it raises
  \<open>ValueError\<close> on the others), the orders in which it enumerates the keyword
  dictionary of the URL builder (once for the comprehension that lower-cases the
  names, once for the query string) and the dictionaries that are values, and
  \<open>frames\<close>, the number of nested calls of \<open>_get_api_response_as_json\<close> that the
  recursion limit still allows where a metadata call starts to fetch.
\<close>

record python =
  container_repr :: "pyval \<Rightarrow> string"
  int_accepts :: "string \<Rightarrow> bool"
  kwargs_order :: "string key_order"
  options_order :: "string key_order"
  dict_order :: "pyval key_order"
  frames :: nat

text \<open>
  An interpreter for the examples.  Its stand-in for the printing of a container shows
  the string fields of a record, one after the other.
\<close>

definition record_text :: "pyval \<Rightarrow> string" where
  "record_text v = (case v of
       PDict d \<Rightarrow> concat (map (\<lambda>(k, x). case x of PStr s \<Rightarrow> s | _ \<Rightarrow> []) d)
     | _ \<Rightarrow> [])"

definition example_python :: python where
  "example_python =
     \<lparr>container_repr = record_text,
      int_accepts = (\<lambda>s. False),
      kwargs_order = insertion_order,
      options_order = rotated_order,
      dict_order = insertion_order,
      frames = 1000\<rparr>"

text \<open>\<open>str(v)\<close> and \<open>"{}".format(v)\<close>.\<close>

definition py_str :: "(pyval \<Rightarrow> string) \<Rightarrow> pyval \<Rightarrow> string" where
  "py_str repr v = (case v of
       PNone \<Rightarrow> ''None''
     | PBool b \<Rightarrow> (if b then ''True'' else ''False'')
     | PInt n \<Rightarrow> str_of_int n
     | PFloat r \<Rightarrow> repr v
     | PStr s \<Rightarrow> s
     | PList xs \<Rightarrow> repr v
     | PTuple xs \<Rightarrow> repr v
     | PDict d \<Rightarrow> repr v)"

text \<open>Iterating over a value (\<open>for x in v\<close>); a dictionary yields its keys.\<close>

definition py_iter :: "python \<Rightarrow> pyval \<Rightarrow> pyerror + pyval list" where
  "py_iter py v = (case v of
       PList xs \<Rightarrow> Inr xs
     | PTuple xs \<Rightarrow> Inr xs
     | PDict d \<Rightarrow> Inr (map fst (items_in (dict_order py) d))
     | PStr s \<Rightarrow> Inr (map (\<lambda>c. PStr [c]) s)
     | PNone \<Rightarrow> Inl TypeError
     | PBool b \<Rightarrow> Inl TypeError
     | PInt n \<Rightarrow> Inl TypeError
     | PFloat r \<Rightarrow> Inl TypeError)"

section \<open>Country-code normalisation\<close>

text \<open>
  \<open>pycountry.countries\<close> is a collaborator: a table of countries indexed by their
  two- and three-letter codes.  A failed look-up raises \<open>KeyError\<close> (or yields
  \<open>None\<close>, whose attribute access raises \<open>AttributeError\<close>); both are caught by
  the source.
\<close>

record country =
  alpha2 :: string
  alpha3 :: string

record countries =
  by_alpha2 :: "string \<Rightarrow> country option"
  by_alpha3 :: "string \<Rightarrow> country option"

text \<open>
  \<open>_convert_to_alpha2\<close>.  \<open>code.upper()\<close> raises \<open>AttributeError\<close> on a value that
  is not a string, before \<open>code\<close> is rebound, so the handler returns the argument.
  After the rebinding the handler returns the upper-cased code.  A string whose length
  is neither 2 nor 3 leaves the \<open>try\<close> block without a \<open>return\<close>: the function
  returns \<open>None\<close>.
\<close>

definition convert_to_alpha2 :: "countries \<Rightarrow> pyval \<Rightarrow> pyval" where
  "convert_to_alpha2 db code = (case code of
       PStr s \<Rightarrow>
         (let c = upper s in
          if length c = 2 then
            (case by_alpha2 db c of Some k \<Rightarrow> PStr (alpha2 k) | None \<Rightarrow> PStr c)
          else if length c = 3 then
            (case by_alpha3 db c of Some k \<Rightarrow> PStr (alpha2 k) | None \<Rightarrow> PStr c)
          else PNone)
     | PNone \<Rightarrow> code
     | PBool b \<Rightarrow> code
     | PInt n \<Rightarrow> code
     | PFloat r \<Rightarrow> code
     | PList xs \<Rightarrow> code
     | PTuple xs \<Rightarrow> code
     | PDict d \<Rightarrow> code)"

definition convert_to_alpha3 :: "countries \<Rightarrow> pyval \<Rightarrow> pyval" where
  "convert_to_alpha3 db code = (case code of
       PStr s \<Rightarrow>
         (let c = upper s in
          if length c = 2 then
            (case by_alpha2 db c of Some k \<Rightarrow> PStr (alpha3 k) | None \<Rightarrow> PStr c)
          else if length c = 3 then
            (case by_alpha3 db c of Some k \<Rightarrow> PStr (alpha3 k) | None \<Rightarrow> PStr c)
          else PNone)
     | PNone \<Rightarrow> code
     | PBool b \<Rightarrow> code
     | PInt n \<Rightarrow> code
     | PFloat r \<Rightarrow> code
     | PList xs \<Rightarrow> code
     | PTuple xs \<Rightarrow> code
     | PDict d \<Rightarrow> code)"

section \<open>The Indicators client\<close>

subsection \<open>Building the request URL\<close>

text \<open>
  \<open>**kwargs\<close> is a dictionary whose keys are strings.  The comprehension that
  lower-cases the names rebuilds it entry by entry, so of two names that differ only
  in case the one enumerated later stays.
\<close>

type_synonym kwargs = "(string \<times> pyval) list"

definition lower_keys :: "python \<Rightarrow> kwargs \<Rightarrow> kwargs" where
  "lower_keys py kw =
     fold (\<lambda>(k, v) d. AList.update (lower k) v d) (items_in (kwargs_order py) kw) []"

text \<open>
  The value of a query option: a number is replaced by \<open>str(v)\<close>; what is then not
  a string is iterated over and its elements joined with semicolons, which raises
  \<open>TypeError\<close> for \<open>None\<close>.
\<close>

definition joined :: "python \<Rightarrow> pyval \<Rightarrow> pyerror + string" where
  "joined py v =
     map_sum id (\<lambda>xs. join '';'' (map (py_str (container_repr py)) xs)) (py_iter py v)"

definition option_value :: "python \<Rightarrow> pyval \<Rightarrow> pyerror + string" where
  "option_value py v = (case v of
       PInt n \<Rightarrow> Inr (py_str (container_repr py) v)
     | PFloat r \<Rightarrow> Inr (py_str (container_repr py) v)
     | PBool b \<Rightarrow> Inr (py_str (container_repr py) v)
     | PStr s \<Rightarrow> Inr s
     | PNone \<Rightarrow> joined py v
     | PList xs \<Rightarrow> joined py v
     | PTuple xs \<Rightarrow> joined py v
     | PDict d \<Rightarrow> joined py v)"

fun query_options :: "python \<Rightarrow> kwargs \<Rightarrow> pyerror + string list" where
  "query_options py [] = Inr []"
| "query_options py ((k, v) # kvs) =
     (case option_value py v of
        Inl e \<Rightarrow> Inl e
      | Inr s \<Rightarrow>
          (case query_options py kvs of
             Inl e \<Rightarrow> Inl e
           | Inr opts \<Rightarrow> Inr ((k @ ''='' @ s) # opts)))"

text \<open>
  \<open>path_option name seg (rest_url, kw)\<close> is one of the three blocks that move an
  option from the dictionary into the path.
\<close>

definition path_option ::
  "string \<Rightarrow> (pyval \<Rightarrow> string) \<Rightarrow> string \<times> kwargs \<Rightarrow> string \<times> kwargs" where
  "path_option name seg st = (case st of (rest_url, kw) \<Rightarrow>
     (case map_of kw name of
        Some v \<Rightarrow> (seg v @ rest_url, AList.delete name kw)
      | None \<Rightarrow> (rest_url, kw)))"

text \<open>
  \<open>_generate_indicators_url\<close>.  The loop that builds the query string enumerates
  what is left of the dictionary in the interpreter's order.
\<close>

definition generate_indicators_url ::
  "python \<Rightarrow> string \<Rightarrow> string \<Rightarrow> kwargs \<Rightarrow> pyerror + string" where
  "generate_indicators_url py base_url rest_url kwargs0 =
     (let kw = lower_keys py kwargs0 in
      if has_key ''topic'' kw \<and> has_key ''source'' kw then Inl AssertionError
      else
        let kw = AList.update ''per_page'' (PStr ''10000'') (AList.update ''format'' (PStr ''json'') kw);
            kw = AList.delete ''page'' kw;
            kw = (if \<not> has_key ''mrv'' kw \<and> \<not> has_key ''date'' kw
                  then AList.update ''mrv'' (PInt 1) kw else kw);
            st = path_option ''source'' (\<lambda>v. ''source/'' @ py_str (container_repr py) v @ ''/'') (rest_url, kw);
            st = path_option ''topic'' (\<lambda>v. ''topic/'' @ py_str (container_repr py) v @ ''/'') st;
            st = path_option ''language'' (\<lambda>v. py_str (container_repr py) v @ ''/'') st
        in case query_options py (items_in (options_order py) (snd st)) of
             Inl e \<Rightarrow> Inl e
           | Inr opts \<Rightarrow> Inr (base_url @ fst st @ join ''&'' opts))"

subsection \<open>Pagination\<close>

text \<open>
  The Indicators API answers with a two-element array: a header with the integer
  fields \<open>page\<close> and \<open>pages\<close>, and the array of records.  \<open>fetch\<close> stands for
  \<open>self.fetch\<close> followed by \<open>json.loads\<close> and the two subscripts; what they raise
  is an \<open>Inl\<close>.
\<close>

record envelope =
  page :: int
  pages :: int
  content :: "pyval list"

type_synonym fetcher = "string \<Rightarrow> pyerror + envelope"

text \<open>
  \<open>_get_api_response_as_json\<close> calls itself while the server reports more pages,
  appending \<open>&page=n\<close> to the URL it was given.  Every page takes one more frame of
  the interpreter's stack, and the interpreter raises \<open>RuntimeError\<close> at its
  recursion limit: \<open>depth\<close> is the number of nested calls that are still allowed, so
  the call that finds none left raises.  The last argument records the URLs fetched so
  far, in order.
\<close>

fun get_api_response_as_json ::
  "fetcher \<Rightarrow> nat \<Rightarrow> string \<Rightarrow> string list \<Rightarrow> (pyerror + pyval list) \<times> string list" where
  "get_api_response_as_json fetch 0 url seen = (Inl RuntimeError, seen)"
| "get_api_response_as_json fetch (Suc depth) url seen =
     (case fetch url of
        Inl e \<Rightarrow> (Inl e, seen @ [url])
      | Inr env \<Rightarrow>
          if page env < pages env then
            (case get_api_response_as_json fetch depth
                    (url @ ''&page='' @ str_of_int (page env + 1)) (seen @ [url]) of
               (r, seen') \<Rightarrow> (map_sum id (\<lambda>rest. content env @ rest) r, seen'))
          else (Inr (content env), seen @ [url]))"

text \<open>
  A server that hands out the pages \<open>cs\<close> one by one, the first numbered \<open>p\<close>,
  each header announcing \<open>n\<close> pages in all; \<open>page_urls\<close> are the URLs the client
  asks for.
\<close>

fun serves :: "fetcher \<Rightarrow> string \<Rightarrow> int \<Rightarrow> int \<Rightarrow> pyval list list \<Rightarrow> bool" where
  "serves fetch url p n [] = True"
| "serves fetch url p n (c # cs) =
     (fetch url = Inr \<lparr>page = p, pages = n, content = c\<rparr> \<and>
      serves fetch (url @ ''&page='' @ str_of_int (p + 1)) (p + 1) n cs)"

fun page_urls :: "string \<Rightarrow> int \<Rightarrow> nat \<Rightarrow> string list" where
  "page_urls url p 0 = []"
| "page_urls url p (Suc k) = url # page_urls (url @ ''&page='' @ str_of_int (p + 1)) (p + 1) k"

text \<open>The server for the examples: it answers exactly these URLs, with these pages.\<close>

fun server :: "string \<Rightarrow> int \<Rightarrow> int \<Rightarrow> pyval list list \<Rightarrow> fetcher" where
  "server url p n [] = (\<lambda>u. Inl FetchError)"
| "server url p n (c # cs) =
     (\<lambda>u. if u = url then Inr \<lparr>page = p, pages = n, content = c\<rparr>
          else server (url @ ''&page='' @ str_of_int (p + 1)) (p + 1) n cs u)"

subsection \<open>The metadata calls\<close>

text \<open>\<open>data[key]\<close> for a string key: only a dictionary can answer.\<close>

definition getitem_str :: "pyval \<Rightarrow> string \<Rightarrow> pyerror + pyval" where
  "getitem_str data key = (case data of
       PDict d \<Rightarrow> (case dict_get d (PStr key) of Some v \<Rightarrow> Inr v | None \<Rightarrow> Inl KeyError)
     | PNone \<Rightarrow> Inl TypeError
     | PBool b \<Rightarrow> Inl TypeError
     | PInt n \<Rightarrow> Inl TypeError
     | PFloat r \<Rightarrow> Inl TypeError
     | PStr s \<Rightarrow> Inl TypeError
     | PList xs \<Rightarrow> Inl TypeError
     | PTuple xs \<Rightarrow> Inl TypeError)"

text \<open>
  \<open>match_data\<close> on dictionary values: the loop that copies the matching entries into
  a new dictionary.
\<close>

definition match_data :: "(pyval \<Rightarrow> string) \<Rightarrow> string \<Rightarrow> pydict \<Rightarrow> pydict" where
  "match_data repr ss results =
     (let ss = lower ss in
      fold (\<lambda>(k, v) search_matches.
              if contains ss (lower (py_str repr v)) then AList.update k v search_matches
              else search_matches)
        results [])"

text \<open>
  The same method on dictionary objects.  A store is the list of the dictionaries
  allocated so far and a reference is an index into it: \<open>search_matches = {}\<close>
  allocates, \<open>search_matches[k] = v\<close> writes through the new reference.
\<close>

type_synonym store = "pydict list"

definition match_data_store :: "(pyval \<Rightarrow> string) \<Rightarrow> string \<Rightarrow> nat \<Rightarrow> store \<Rightarrow> nat \<times> store" where
  "match_data_store repr ss results h =
     (let ss = lower ss;
          search_matches = length h;
          h = h @ [[]]
      in (search_matches,
          fold (\<lambda>(k, v) h.
                  if contains ss (lower (py_str repr v))
                  then h[search_matches := AList.update k v (h ! search_matches)]
                  else h)
            (h ! results) h))"

text \<open>
  The loop \<open>tidier_data[data[response_key]] = data\<close> of \<open>_get_indicator_data\<close>; a
  key that is a JSON array or object cannot be hashed.
\<close>

fun tidy :: "string \<Rightarrow> pyval list \<Rightarrow> pydict \<Rightarrow> pyerror + pydict" where
  "tidy response_key [] tidier_data = Inr tidier_data"
| "tidy response_key (data # rest) tidier_data =
     (case getitem_str data response_key of
        Inl e \<Rightarrow> Inl e
      | Inr k \<Rightarrow>
          if hashable k then tidy response_key rest (dict_set k data tidier_data)
          else Inl TypeError)"

text \<open>\<open>if match: tidier_data = self.match_data(match, tidier_data)\<close>, where
  \<open>ss.lower()\<close> needs a string.\<close>

definition match_filter :: "(pyval \<Rightarrow> string) \<Rightarrow> pyval \<Rightarrow> pydict \<Rightarrow> pyerror + pydict" where
  "match_filter repr match tidier_data =
     (if truthy match then
        (case match of
           PStr ss \<Rightarrow> Inr (match_data repr ss tidier_data)
         | PNone \<Rightarrow> Inl AttributeError
         | PBool b \<Rightarrow> Inl AttributeError
         | PInt n \<Rightarrow> Inl AttributeError
         | PFloat r \<Rightarrow> Inl AttributeError
         | PList xs \<Rightarrow> Inl AttributeError
         | PTuple xs \<Rightarrow> Inl AttributeError
         | PDict d \<Rightarrow> Inl AttributeError)
      else Inr tidier_data)"

definition endpoint :: "python \<Rightarrow> pyval \<Rightarrow> string \<Rightarrow> pyerror + string" where
  "endpoint py api_ids rest_url =
     (if truthy api_ids then
        map_sum id (\<lambda>xs. rest_url @ ''/'' @ join '';'' (map (py_str (container_repr py)) xs) @ ''?'')
          (py_iter py api_ids)
      else Inr (rest_url @ ''?''))"

definition get_indicator_data ::
  "python \<Rightarrow> fetcher \<Rightarrow> string \<Rightarrow> pyval \<Rightarrow> string \<Rightarrow> string \<Rightarrow> pyval \<Rightarrow> kwargs
     \<Rightarrow> string list \<Rightarrow> (pyerror + pydict) \<times> string list" where
  "get_indicator_data py fetch base_url api_ids rest_url response_key match kw seen =
     (case endpoint py api_ids rest_url of
        Inl e \<Rightarrow> (Inl e, seen)
      | Inr url \<Rightarrow>
          (case generate_indicators_url py base_url url kw of
             Inl e \<Rightarrow> (Inl e, seen)
           | Inr url \<Rightarrow>
               (case get_api_response_as_json fetch (frames py) url seen of
                  (r, seen') \<Rightarrow>
                    (case r of
                       Inl e \<Rightarrow> (Inl e, seen')
                     | Inr world_bank_response \<Rightarrow>
                         (case tidy response_key world_bank_response [] of
                            Inl e \<Rightarrow> (Inl e, seen')
                          | Inr tidier_data \<Rightarrow>
                              (match_filter (container_repr py) match tidier_data, seen'))))))"

text \<open>
  \<open>get_countries\<close> normalises the codes with \<open>_covert_to_alpha3\<close>, a name that is
  defined nowhere: evaluating the comprehension's first element raises
  \<open>NameError\<close>.
\<close>

definition get_countries ::
  "python \<Rightarrow> fetcher \<Rightarrow> string \<Rightarrow> pyval \<Rightarrow> pyval \<Rightarrow> kwargs
     \<Rightarrow> string list \<Rightarrow> (pyerror + pydict) \<times> string list" where
  "get_countries py fetch base_url country_codes match kw seen =
     (if truthy country_codes then
        (case py_iter py country_codes of
           Inl e \<Rightarrow> (Inl e, seen)
         | Inr [] \<Rightarrow>
             get_indicator_data py fetch base_url (PList []) ''country'' ''iso2Code'' match kw seen
         | Inr (code # codes) \<Rightarrow> (Inl NameError, seen))
      else get_indicator_data py fetch base_url country_codes ''country'' ''iso2Code'' match kw seen)"

text \<open>
  For the statements about repeated keys: the last record of a response that carries,
  under \<open>key\<close>, a value equal in Python to \<open>k\<close>; and whether a record passes the
  match filter of a call.
\<close>

definition last_record :: "string \<Rightarrow> pyval \<Rightarrow> pyval list \<Rightarrow> pyval option" where
  "last_record key k recs =
     (case filter (\<lambda>r. case getitem_str r key of
                          Inr k' \<Rightarrow> norm_key k' = norm_key k
                        | Inl e \<Rightarrow> False) recs of
        [] \<Rightarrow> None
      | r # rs \<Rightarrow> Some (last (r # rs)))"

definition passes :: "(pyval \<Rightarrow> string) \<Rightarrow> pyval \<Rightarrow> pyval \<Rightarrow> bool" where
  "passes repr match r = (case match of
       PStr ss \<Rightarrow> ss = [] \<or> contains (lower ss) (lower (py_str repr r))
     | PNone \<Rightarrow> True
     | PBool b \<Rightarrow> True
     | PInt n \<Rightarrow> True
     | PFloat x \<Rightarrow> True
     | PList xs \<Rightarrow> True
     | PTuple xs \<Rightarrow> True
     | PDict d \<Rightarrow> True)"

section \<open>The Climate client\<close>

text \<open>
  A Climate object: \<open>c_fetch\<close> is \<open>self.fetch\<close> followed by \<open>json.loads\<close>.
\<close>

record climate =
  c_fetch :: "string \<Rightarrow> pyerror + pyval"
  c_base_url :: string
  pycountry :: countries

text \<open>
  The result of a modelled call: model key, then location, then time, then either a
  value or a dictionary of months.
\<close>

type_synonym by_time = "(pyval \<times> pyval) list"

type_synonym by_loc = "(pyval \<times> by_time) list"

type_synonym results = "(pyval \<times> by_loc) list"

fun fold_err :: "('a \<Rightarrow> 's \<Rightarrow> pyerror + 's) \<Rightarrow> 'a list \<Rightarrow> 's \<Rightarrow> pyerror + 's" where
  "fold_err f [] s = Inr s"
| "fold_err f (x # xs) s = (case f x s of Inl e \<Rightarrow> Inl e | Inr s' \<Rightarrow> fold_err f xs s')"

fun map_err :: "('a \<Rightarrow> pyerror + 'b) \<Rightarrow> 'a list \<Rightarrow> pyerror + 'b list" where
  "map_err f [] = Inr []"
| "map_err f (x # xs) =
     (case f x of
        Inl e \<Rightarrow> Inl e
      | Inr y \<Rightarrow> (case map_err f xs of Inl e \<Rightarrow> Inl e | Inr ys \<Rightarrow> Inr (y # ys)))"

text \<open>\<open>v[n]\<close> for a literal index \<open>n\<close> that is not negative.\<close>

definition getitem_int :: "pyval \<Rightarrow> nat \<Rightarrow> pyerror + pyval" where
  "getitem_int v n = (case v of
       PList xs \<Rightarrow> (if n < length xs then Inr (xs ! n) else Inl IndexError)
     | PTuple xs \<Rightarrow> (if n < length xs then Inr (xs ! n) else Inl IndexError)
     | PStr s \<Rightarrow> (if n < length s then Inr (PStr [s ! n]) else Inl IndexError)
     | PDict d \<Rightarrow> (case dict_get d (PInt (int n)) of Some x \<Rightarrow> Inr x | None \<Rightarrow> Inl KeyError)
     | PNone \<Rightarrow> Inl TypeError
     | PBool b \<Rightarrow> Inl TypeError
     | PInt i \<Rightarrow> Inl TypeError
     | PFloat r \<Rightarrow> Inl TypeError)"

text \<open>\<open>cell[i] = val\<close> for \<open>i\<close> from \<open>enumerate(..., 1)\<close>.\<close>

definition setitem_int :: "nat \<Rightarrow> pyval \<Rightarrow> pyval \<Rightarrow> pyerror + pyval" where
  "setitem_int i val cell = (case cell of
       PDict m \<Rightarrow> Inr (PDict (dict_set (PInt (int i)) val m))
     | PList xs \<Rightarrow> (if i < length xs then Inr (PList (xs[i := val])) else Inl IndexError)
     | PNone \<Rightarrow> Inl TypeError
     | PBool b \<Rightarrow> Inl TypeError
     | PInt n \<Rightarrow> Inl TypeError
     | PFloat r \<Rightarrow> Inl TypeError
     | PStr s \<Rightarrow> Inl TypeError
     | PTuple xs \<Rightarrow> Inl TypeError)"

text \<open>Level 4 of the fold: the months, or else the annual value, or else nothing.\<close>

definition store_values :: "python \<Rightarrow> pydict \<Rightarrow> pyval \<Rightarrow> pyerror + pyval" where
  "store_values py d cell =
     (case dict_get d (PStr ''monthVals'') of
        Some mv \<Rightarrow>
          (case py_iter py mv of
             Inl e \<Rightarrow> Inl e
           | Inr vals \<Rightarrow>
               fold_err (\<lambda>(i, val). setitem_int i val) (zip [1 ..< Suc (length vals)] vals) cell)
      | None \<Rightarrow>
          (case dict_get d (PStr ''annualVal'') of
             Some av \<Rightarrow> getitem_int av 0
           | None \<Rightarrow> Inr cell))"

text \<open>
  Levels 1 to 4 for one observation, once its model key is known.  A key of a
  dictionary must be hashable; \<open>data['fromYear']\<close> must exist.
\<close>

definition store_observation ::
  "python \<Rightarrow> pyval \<Rightarrow> pyval \<Rightarrow> pydict \<Rightarrow> results \<Rightarrow> pyerror + results" where
  "store_observation py gcm_key loc d results =
     (if \<not> hashable gcm_key then Inl TypeError
      else
        let at_key = (case dict_get results gcm_key of Some m \<Rightarrow> m | None \<Rightarrow> []) in
        if \<not> hashable loc then Inl TypeError
        else
          let at_loc = (case dict_get at_key loc of Some m \<Rightarrow> m | None \<Rightarrow> []) in
          (case dict_get d (PStr ''fromYear'') of
             None \<Rightarrow> Inl KeyError
           | Some y \<Rightarrow>
               let time = (case dict_get d (PStr ''scenario'') of
                             Some s \<Rightarrow> PTuple [y, s] | None \<Rightarrow> y) in
               if \<not> hashable time then Inl TypeError
               else
                 let cell = (case dict_get at_loc time of Some c \<Rightarrow> c | None \<Rightarrow> PDict []) in
                 (case store_values py d cell of
                    Inl e \<Rightarrow> Inl e
                  | Inr cell' \<Rightarrow>
                      Inr (dict_set gcm_key
                             (dict_set loc (dict_set time cell' at_loc) at_key) results))))"

text \<open>
  The URL of one location in one date window.  \<open>int(loc)\<close> decides between basin and
  country; it raises \<open>TypeError\<close>, which the source does not catch, on \<open>None\<close> and
  on containers.
\<close>

definition loc_type :: "python \<Rightarrow> pyval \<Rightarrow> pyerror + string" where
  "loc_type py loc = (case loc of
       PStr s \<Rightarrow> Inr (if int_accepts py s then ''basin'' else ''country'')
     | PInt n \<Rightarrow> Inr ''basin''
     | PFloat r \<Rightarrow> Inr ''basin''
     | PBool b \<Rightarrow> Inr ''basin''
     | PNone \<Rightarrow> Inl TypeError
     | PList xs \<Rightarrow> Inl TypeError
     | PTuple xs \<Rightarrow> Inl TypeError
     | PDict d \<Rightarrow> Inl TypeError)"

definition valid_dates :: "int list" where
  "valid_dates = [1920, 1940, 1960, 1980, 2020, 2040, 2060, 2080]"

definition date_range :: int where
  "date_range = 19"

definition gcm_url ::
  "python \<Rightarrow> climate \<Rightarrow> string \<Rightarrow> string \<Rightarrow> int \<times> pyval \<Rightarrow> pyerror + pyval \<times> string" where
  "gcm_url py self var data_type p = (case p of (start_date, loc) \<Rightarrow>
     (case loc_type py loc of
        Inl e \<Rightarrow> Inl e
      | Inr t \<Rightarrow>
          Inr (loc, c_base_url self @ ''v1/'' @ t @ ''/'' @ data_type @ ''/'' @ var @ ''/''
                 @ str_of_int start_date @ ''/'' @ str_of_int (start_date + date_range) @ ''/''
                 @ py_str (container_repr py) loc @ ''.json'')))"

definition gcm_urls ::
  "python \<Rightarrow> climate \<Rightarrow> string \<Rightarrow> string \<Rightarrow> pyval list \<Rightarrow> pyerror + (pyval \<times> string) list" where
  "gcm_urls py self var data_type locations =
     map_err (gcm_url py self var data_type)
       (concat (map (\<lambda>start_date. map (Pair start_date) locations) valid_dates))"

text \<open>
  One observation in GCM mode.  The local variable \<open>gcm_key\<close> is assigned only when
  the record has a \<open>gcm\<close> field and is read in any case, so it is part of the loop
  state: \<open>None\<close> is the unbound variable.
\<close>

definition gcm_record ::
  "python \<Rightarrow> pyval \<Rightarrow> pyval \<Rightarrow> pyval option \<times> results \<Rightarrow> pyerror + pyval option \<times> results" where
  "gcm_record py loc data st = (case st of (gcm_key, results) \<Rightarrow>
     (case data of
        PDict d \<Rightarrow>
          (case (case dict_get d (PStr ''gcm'') of Some g \<Rightarrow> Some g | None \<Rightarrow> gcm_key) of
             None \<Rightarrow> Inl UnboundLocalError
           | Some g \<Rightarrow> map_sum id (Pair (Some g)) (store_observation py g loc d results))
      | PNone \<Rightarrow> Inl AttributeError
      | PBool b \<Rightarrow> Inl AttributeError
      | PInt n \<Rightarrow> Inl AttributeError
      | PFloat r \<Rightarrow> Inl AttributeError
      | PStr s \<Rightarrow> Inl AttributeError
      | PList xs \<Rightarrow> Inl AttributeError
      | PTuple xs \<Rightarrow> Inl AttributeError))"

definition gcm_response ::
  "python \<Rightarrow> climate \<Rightarrow> pyval \<times> string \<Rightarrow> pyval option \<times> results
     \<Rightarrow> pyerror + pyval option \<times> results" where
  "gcm_response py self lu st = (case lu of (loc, url) \<Rightarrow>
     (let loc = convert_to_alpha2 (pycountry self) loc in
      case c_fetch self url of
        Inl e \<Rightarrow> Inl e
      | Inr response \<Rightarrow>
          (case py_iter py response of
             Inl e \<Rightarrow> Inl e
           | Inr recs \<Rightarrow> fold_err (gcm_record py loc) recs st)))"

text \<open>\<open>k in c\<close>: a substring test on a string, membership otherwise.\<close>

definition py_in :: "pyval \<Rightarrow> pyval \<Rightarrow> pyerror + bool" where
  "py_in k c = (case c of
       PStr s \<Rightarrow> (case k of
                    PStr t \<Rightarrow> Inr (contains t s)
                  | PNone \<Rightarrow> Inl TypeError
                  | PBool b \<Rightarrow> Inl TypeError
                  | PInt n \<Rightarrow> Inl TypeError
                  | PFloat r \<Rightarrow> Inl TypeError
                  | PList xs \<Rightarrow> Inl TypeError
                  | PTuple xs \<Rightarrow> Inl TypeError
                  | PDict d \<Rightarrow> Inl TypeError)
     | PList xs \<Rightarrow> Inr (List.member (map norm_key xs) (norm_key k))
     | PTuple xs \<Rightarrow> Inr (List.member (map norm_key xs) (norm_key k))
     | PDict d \<Rightarrow> (if hashable k then Inr (dict_get d k \<noteq> None) else Inl TypeError)
     | PNone \<Rightarrow> Inl TypeError
     | PBool b \<Rightarrow> Inl TypeError
     | PInt n \<Rightarrow> Inl TypeError
     | PFloat r \<Rightarrow> Inl TypeError)"

text \<open>
  The three filters loop over a copy of the keys, in the interpreter's order, and
  delete from the dictionary.
\<close>

definition gcm_filter :: "python \<Rightarrow> pyval \<Rightarrow> results \<Rightarrow> pyerror + results" where
  "gcm_filter py gcm results =
     (if truthy gcm then
        fold_err (\<lambda>k res. map_sum id (\<lambda>b. if b then res else dict_del k res) (py_in k gcm))
          (map fst (items_in (dict_order py) results)) results
      else Inr results)"

text \<open>
  The scenario filter.  \<open>k[1]\<close> raises \<open>TypeError\<close>, which is caught, when the time
  key is a plain year; the two calls of \<open>lower\<close> need strings.
\<close>

definition sres_drops :: "pyval \<Rightarrow> pyval \<Rightarrow> pyerror + bool" where
  "sres_drops sres k =
     (case getitem_int k 1 of
        Inl e \<Rightarrow> (if e = TypeError then Inr False else Inl e)
      | Inr s \<Rightarrow>
          (case s of
             PStr a \<Rightarrow> (case sres of
                          PStr b \<Rightarrow> Inr (lower a \<noteq> lower b)
                        | PNone \<Rightarrow> Inl AttributeError
                        | PBool b \<Rightarrow> Inl AttributeError
                        | PInt n \<Rightarrow> Inl AttributeError
                        | PFloat r \<Rightarrow> Inl AttributeError
                        | PList xs \<Rightarrow> Inl AttributeError
                        | PTuple xs \<Rightarrow> Inl AttributeError
                        | PDict d \<Rightarrow> Inl AttributeError)
           | PNone \<Rightarrow> Inl AttributeError
           | PBool b \<Rightarrow> Inl AttributeError
           | PInt n \<Rightarrow> Inl AttributeError
           | PFloat r \<Rightarrow> Inl AttributeError
           | PList xs \<Rightarrow> Inl AttributeError
           | PTuple xs \<Rightarrow> Inl AttributeError
           | PDict d \<Rightarrow> Inl AttributeError))"

definition sres_times :: "python \<Rightarrow> pyval \<Rightarrow> by_time \<Rightarrow> pyerror + by_time" where
  "sres_times py sres at_loc =
     fold_err (\<lambda>k m. map_sum id (\<lambda>b. if b then dict_del k m else m) (sres_drops sres k))
       (map fst (items_in (dict_order py) at_loc)) at_loc"

text \<open>
  The loops over the model keys and the locations replace each inner dictionary by its
  filtered version; the outer dictionaries keep their keys.
\<close>

definition sres_locs :: "python \<Rightarrow> pyval \<Rightarrow> by_loc \<Rightarrow> pyerror + by_loc" where
  "sres_locs py sres at_key =
     fold_err (\<lambda>loc m. case dict_get m loc of
                          None \<Rightarrow> Inr m
                        | Some at_loc \<Rightarrow> map_sum id (\<lambda>t. dict_set loc t m) (sres_times py sres at_loc))
       (map fst (items_in (dict_order py) at_key)) at_key"

definition sres_filter :: "python \<Rightarrow> pyval \<Rightarrow> results \<Rightarrow> pyerror + results" where
  "sres_filter py sres results =
     (if truthy sres then
        fold_err (\<lambda>gcm_key res. case dict_get res gcm_key of
                                  None \<Rightarrow> Inr res
                                | Some at_key \<Rightarrow>
                                    map_sum id (\<lambda>m. dict_set gcm_key m res) (sres_locs py sres at_key))
          (map fst (items_in (dict_order py) results)) results
      else Inr results)"

definition get_modelled_gcm ::
  "python \<Rightarrow> climate \<Rightarrow> string \<Rightarrow> string \<Rightarrow> pyval list \<Rightarrow> pyval \<Rightarrow> pyval \<Rightarrow> pyerror + results" where
  "get_modelled_gcm py self var data_type locations gcm sres =
     (case gcm_urls py self var data_type locations of
        Inl e \<Rightarrow> Inl e
      | Inr urls \<Rightarrow>
          (case fold_err (gcm_response py self) urls (None, []) of
             Inl e \<Rightarrow> Inl e
           | Inr st \<Rightarrow>
               (case gcm_filter py gcm (snd st) of
                  Inl e \<Rightarrow> Inl e
                | Inr results \<Rightarrow> sres_filter py sres results)))"

subsection \<open>Ensemble mode\<close>

definition ensemble_dates :: "string \<Rightarrow> int list" where
  "ensemble_dates var = (if var \<noteq> ''pr'' \<and> var \<noteq> ''tas'' then [1961, 2046, 2081] else valid_dates)"

definition ensemble_url ::
  "python \<Rightarrow> climate \<Rightarrow> string \<Rightarrow> string \<Rightarrow> int \<times> pyval \<Rightarrow> pyerror + pyval \<times> string" where
  "ensemble_url py self var data_type p = (case p of (start_date, loc) \<Rightarrow>
     (let end_date = (if start_date = 1961 then 2000 else start_date + date_range) in
      case loc_type py loc of
        Inl e \<Rightarrow> Inl e
      | Inr t \<Rightarrow>
          Inr (loc, c_base_url self @ ''v1/'' @ t @ ''/'' @ data_type @ ''/ensemble/'' @ var @ ''/''
                 @ str_of_int start_date @ ''/'' @ str_of_int end_date @ ''/''
                 @ py_str (container_repr py) loc @ ''.json'')))"

definition ensemble_urls ::
  "python \<Rightarrow> climate \<Rightarrow> string \<Rightarrow> string \<Rightarrow> pyval list \<Rightarrow> pyerror + (pyval \<times> string) list" where
  "ensemble_urls py self var data_type locations =
     map_err (ensemble_url py self var data_type)
       (concat (map (\<lambda>start_date. map (Pair start_date) locations) (ensemble_dates var)))"

definition ensemble_record :: "python \<Rightarrow> pyval \<Rightarrow> pyval \<Rightarrow> results \<Rightarrow> pyerror + results" where
  "ensemble_record py loc data results =
     (case getitem_str data ''percentile'' of
        Inl e \<Rightarrow> Inl e
      | Inr p \<Rightarrow>
          (case data of
             PDict d \<Rightarrow> store_observation py (PTuple [PStr ''ensemble'', p]) loc d results
           | PNone \<Rightarrow> Inl TypeError
           | PBool b \<Rightarrow> Inl TypeError
           | PInt n \<Rightarrow> Inl TypeError
           | PFloat r \<Rightarrow> Inl TypeError
           | PStr s \<Rightarrow> Inl TypeError
           | PList xs \<Rightarrow> Inl TypeError
           | PTuple xs \<Rightarrow> Inl TypeError))"

definition ensemble_response ::
  "python \<Rightarrow> climate \<Rightarrow> pyval \<times> string \<Rightarrow> results \<Rightarrow> pyerror + results" where
  "ensemble_response py self lu results = (case lu of (loc, url) \<Rightarrow>
     (let loc = convert_to_alpha2 (pycountry self) loc in
      case c_fetch self url of
        Inl e \<Rightarrow> Inl e
      | Inr response \<Rightarrow>
          (case py_iter py response of
             Inl e \<Rightarrow> Inl e
           | Inr recs \<Rightarrow> fold_err (ensemble_record py loc) recs results)))"

text \<open>
  The percentile filter.  Its loop over the keys evaluates \<open>ensemble_percentiles\<close>,
  a name bound nowhere (the parameter is \<open>ensemble_percentile\<close>), so the first turn
  of the loop raises \<open>NameError\<close>.
\<close>

definition percentile_filter :: "python \<Rightarrow> pyval \<Rightarrow> results \<Rightarrow> pyerror + results" where
  "percentile_filter py ensemble_percentile results =
     (if truthy ensemble_percentile then
        fold_err (\<lambda>k res. Inl NameError) (map fst (items_in (dict_order py) results)) results
      else Inr results)"

definition get_modelled_ensemble ::
  "python \<Rightarrow> climate \<Rightarrow> string \<Rightarrow> string \<Rightarrow> pyval list \<Rightarrow> pyval \<Rightarrow> pyval \<Rightarrow> pyerror + results" where
  "get_modelled_ensemble py self var data_type locations sres ensemble_percentile =
     (case ensemble_urls py self var data_type locations of
        Inl e \<Rightarrow> Inl e
      | Inr urls \<Rightarrow>
          (case fold_err (ensemble_response py self) urls [] of
             Inl e \<Rightarrow> Inl e
           | Inr results \<Rightarrow>
               (case percentile_filter py ensemble_percentile results of
                  Inl e \<Rightarrow> Inl e
                | Inr results \<Rightarrow> sres_filter py sres results)))"

subsection \<open>The entry points\<close>

definition get_modelled ::
  "python \<Rightarrow> climate \<Rightarrow> string \<Rightarrow> string \<Rightarrow> pyval list \<Rightarrow> pyval \<Rightarrow> pyval \<Rightarrow> pyval
     \<Rightarrow> pyerror + results" where
  "get_modelled py self var data_type locations gcm sres ensemble_percentile =
     (let data_type = (case data_type of
                         [] \<Rightarrow> data_type
                       | c # cs \<Rightarrow> if c = CHR ''a'' then ''annual'' @ cs else data_type);
          gcm = (case gcm of
                   PStr s \<Rightarrow> PStr (lower s)
                 | PNone \<Rightarrow> gcm
                 | PBool b \<Rightarrow> gcm
                 | PInt n \<Rightarrow> gcm
                 | PFloat r \<Rightarrow> gcm
                 | PList xs \<Rightarrow> gcm
                 | PTuple xs \<Rightarrow> gcm
                 | PDict d \<Rightarrow> gcm);
          locations = map (convert_to_alpha3 (pycountry self)) locations
      in if gcm = PStr ''ensemble''
         then get_modelled_ensemble py self var data_type locations sres ensemble_percentile
         else get_modelled_gcm py self var data_type locations gcm sres)"

definition get_precip_modelled ::
  "python \<Rightarrow> climate \<Rightarrow> string \<Rightarrow> pyval list \<Rightarrow> pyval \<Rightarrow> pyval \<Rightarrow> pyval \<Rightarrow> pyerror + results" where
  "get_precip_modelled py self data_type locations gcm sres ensemble_percentile =
     get_modelled py self ''pr'' data_type locations gcm sres PNone"

definition get_temp_modelled ::
  "python \<Rightarrow> climate \<Rightarrow> string \<Rightarrow> pyval list \<Rightarrow> pyval \<Rightarrow> pyval \<Rightarrow> pyval \<Rightarrow> pyerror + results" where
  "get_temp_modelled py self data_type locations gcm sres ensemble_percentile =
     get_modelled py self ''tas'' data_type locations gcm sres PNone"

definition get_derived_stat ::
  "python \<Rightarrow> climate \<Rightarrow> string \<Rightarrow> string \<Rightarrow> pyval list \<Rightarrow> pyval \<Rightarrow> pyval \<Rightarrow> pyerror + results" where
  "get_derived_stat py self data_type stat locations sres ensemble_percentile =
     get_modelled py self stat data_type locations (PStr ''ensemble'') sres ensemble_percentile"

text \<open>
  A Climate object for the examples below: its fetch answers every URL with the same
  response and its country table holds the United Kingdom.
\<close>

definition united_kingdom :: countries where
  "united_kingdom =
     \<lparr>by_alpha2 = (\<lambda>c. if c = ''GB'' then Some \<lparr>alpha2 = ''GB'', alpha3 = ''GBR''\<rparr> else None),
      by_alpha3 = (\<lambda>c. if c = ''GBR'' then Some \<lparr>alpha2 = ''GB'', alpha3 = ''GBR''\<rparr> else None)\<rparr>"

definition answering :: "pyval \<Rightarrow> climate" where
  "answering response =
     \<lparr>c_fetch = (\<lambda>u. Inr response),
      c_base_url = ''http://climatedataapi.worldbank.org/climateweb/rest/'',
      pycountry = united_kingdom\<rparr>"



section \<open>Properties\<close>

subsection \<open>Enumeration orders and dictionaries\<close>

lemma mset_positions: "mset (positions ord ks) = mset [0..<length ks]"
  using positions [of ord] by simp

lemma mset_items_in: "mset (items_in ord d) = mset d"
proof -
  have "mset (items_in ord d) = image_mset (nth d) (mset (positions ord (map fst d)))"
    by (simp add: items_in_def)
  also have "\<dots> = image_mset (nth d) (mset [0..<length d])"
    by (simp add: mset_positions)
  also have "\<dots> = mset (map (nth d) [0..<length d])"
    by simp
  also have "\<dots> = mset d"
    by (simp add: map_nth)
  finally show ?thesis .
qed

lemma set_items_in: "set (items_in ord d) = set d"
  using mset_items_in [of ord d] by (metis set_mset_mset)

lemma items_in_insertion_order: "items_in insertion_order d = d"
  by (simp add: items_in_def insertion_order_def Abs_key_order_inverse map_nth)

lemma mset_rotate1: "mset (rotate1 xs) = mset xs"
  by (cases xs) simp_all

lemma items_in_rotated_order: "items_in rotated_order d = rotate1 d"
proof -
  have "positions rotated_order (map fst d) = rotate1 [0..<length d]"
    by (simp add: rotated_order_def Abs_key_order_inverse mset_rotate1)
  then have "items_in rotated_order d = map (nth d) (rotate1 [0..<length d])"
    by (simp add: items_in_def)
  also have "\<dots> = rotate1 (map (nth d) [0..<length d])"
    by (simp add: rotate1_map)
  finally show ?thesis by (simp add: map_nth)
qed

lemma dict_get_dict_set:
  "dict_get (dict_set k v d) k' = (if norm_key k' = norm_key k then Some v else dict_get d k')"
  by (induction d) (auto simp: dict_get_def)

lemma keys_dict_set:
  "(\<lambda>e. norm_key (fst e)) ` set (dict_set k v d) =
     insert (norm_key k) ((\<lambda>e. norm_key (fst e)) ` set d)"
proof (induction d)
  case Nil
  show ?case by simp
next
  case (Cons a d)
  obtain k' v' where a: "a = (k', v')" by (cases a)
  show ?case
  proof (cases "norm_key k' = norm_key k")
    case True
    then show ?thesis by (simp add: a)
  next
    case False
    then show ?thesis by (simp add: a Cons.IH insert_commute)
  qed
qed

lemma distinct_dict_set:
  "distinct (map (\<lambda>e. norm_key (fst e)) d) \<Longrightarrow>
   distinct (map (\<lambda>e. norm_key (fst e)) (dict_set k v d))"
proof (induction d)
  case Nil
  show ?case by simp
next
  case (Cons a d)
  obtain k' v' where a: "a = (k', v')" by (cases a)
  show ?case
  proof (cases "norm_key k' = norm_key k")
    case True
    then show ?thesis using Cons.prems by (simp add: a)
  next
    case False
    then show ?thesis using Cons by (simp add: a keys_dict_set)
  qed
qed

subsection \<open>Country codes\<close>

text \<open>
  C2.  The claim: a code that is not a recognised two- or three-letter ISO code is
  returned unchanged.  The source does so for a value that is not a string, but a
  string whose length is neither 2 nor 3, such as the basin id \<open>5\<close> written as
  a string, falls through both tests and yields \<open>None\<close>, whatever the country table
  holds.
\<close>

theorem convert_short_code_is_None:
  "convert_to_alpha2 db (PStr ''5'') = PNone \<and> convert_to_alpha3 db (PStr ''5'') = PNone"
  by (simp add: convert_to_alpha2_def convert_to_alpha3_def upper_def)

subsection \<open>The URL builder\<close>

lemma keys_fold_lower:
  "fst ` set (fold (\<lambda>(k, v) d. AList.update (lower k) v d) kw d0) =
     fst ` set d0 \<union> lower ` fst ` set kw"
proof (induction kw arbitrary: d0)
  case Nil
  show ?case by simp
next
  case (Cons a kw)
  obtain k v where a: "a = (k, v)" by (cases a)
  show ?case
    unfolding a by (simp add: Cons.IH AList.dom_update)
qed

lemma has_key_iff: "has_key k d \<longleftrightarrow> k \<in> fst ` set d"
  by (simp add: has_key_def map_of_eq_None_iff)

lemma has_key_lower_keys: "has_key k (lower_keys py kw) \<longleftrightarrow> k \<in> lower ` fst ` set kw"
  by (simp add: has_key_iff lower_keys_def keys_fold_lower set_items_in)

text \<open>
  C5.  When the option bag holds both a \<open>topic\<close> and a \<open>source\<close> option, in any
  spelling of upper and lower case, the URL builder fails on its assertion (the
  spec's ConfigurationConflict) and produces no URL.
\<close>

theorem topic_and_source_conflict:
  assumes "''topic'' \<in> lower ` fst ` set kw" and "''source'' \<in> lower ` fst ` set kw"
  shows "generate_indicators_url py base_url rest_url kw = Inl AssertionError"
  using assms by (simp add: generate_indicators_url_def has_key_lower_keys)

theorem topic_and_source_conflict_witness:
  "generate_indicators_url example_python ''http://api.worldbank.org/'' ''indicator?''
     [(''Topic'', PInt 5), (''source'', PInt 2)] = Inl AssertionError"
  by (rule topic_and_source_conflict) (simp_all add: lower_def char_lower_def)

lemma two_perm:
  assumes "mset xs = {#a, b#}"
  shows "xs = [a, b] \<or> xs = [b, a]"
proof -
  from assms have "size (mset xs) = size {#a, b#}" by simp
  then have "length xs = Suc (Suc 0)" by simp
  then obtain x y where xs: "xs = [x, y]"
    by (auto simp: length_Suc_conv)
  from assms show ?thesis
    unfolding xs by (auto simp: add_eq_conv_ex)
qed

lemma query_options_all:
  "list_all (\<lambda>e. option_value py (snd e) = Inr (g (snd e))) xs \<Longrightarrow>
   query_options py xs = Inr (map (\<lambda>e. fst e @ ''='' @ g (snd e)) xs)"
proof (induction xs)
  case Nil
  show ?case by simp
next
  case (Cons a xs)
  obtain k v where a: "a = (k, v)" by (cases a)
  from Cons show ?case by (simp add: a)
qed

lemma default_query:
  assumes "mset xs = mset [(''format'', PStr ''json''), (''per_page'', PStr ''10000''), (''mrv'', PInt 1)]"
  shows "\<exists>opts. mset opts = {#''format=json'', ''per_page=10000'', ''mrv=1''#}
           \<and> query_options py xs = Inr opts"
proof -
  let ?g = "\<lambda>v. case v of PStr s \<Rightarrow> s | PInt n \<Rightarrow> str_of_int n | _ \<Rightarrow> []"
  have s: "set xs = {(''format'', PStr ''json''), (''per_page'', PStr ''10000''), (''mrv'', PInt 1)}"
    using assms by (metis mset_eq_setD list.simps(15) empty_set)
  have "list_all (\<lambda>e. option_value py (snd e) = Inr (?g (snd e))) xs"
    by (auto simp: list_all_iff s option_value_def py_str_def)
  then have q: "query_options py xs = Inr (map (\<lambda>e. fst e @ ''='' @ ?g (snd e)) xs)"
    by (rule query_options_all)
  have "mset (map (\<lambda>e. fst e @ ''='' @ ?g (snd e)) xs)
          = image_mset (\<lambda>e. fst e @ ''='' @ ?g (snd e)) (mset xs)"
    by simp
  also have "\<dots> = {#''format=json'', ''per_page=10000'', ''mrv=1''#}"
    unfolding assms by (simp add: str_of_int_def digit_def)
  finally show ?thesis using q by blast
qed

text \<open>
  C7.  For the option bag \<open>{language: "fr", topic: 5}\<close> and the path fragment
  \<open>indicator?\<close> the URL is the base URL followed by \<open>fr/topic/5/indicator?\<close> and
  the query string: language outermost, then the topic, then the fragment.  This holds
  for every order in which the interpreter enumerates the options; the query string
  consists of the three default options in the order of that enumeration.
\<close>

theorem language_outermost_then_topic:
  assumes "mset kw = {#(''language'', PStr ''fr''), (''topic'', PInt 5)#}"
  shows "\<exists>opts. mset opts = {#''format=json'', ''per_page=10000'', ''mrv=1''#}
           \<and> generate_indicators_url py base_url ''indicator?'' kw
               = Inr (base_url @ ''fr/topic/5/indicator?'' @ join ''&'' opts)"
proof -
  have "mset (items_in (kwargs_order py) kw) = {#(''language'', PStr ''fr''), (''topic'', PInt 5)#}"
    using assms by (simp add: mset_items_in)
  then have "items_in (kwargs_order py) kw = [(''language'', PStr ''fr''), (''topic'', PInt 5)]
      \<or> items_in (kwargs_order py) kw = [(''topic'', PInt 5), (''language'', PStr ''fr'')]"
    by (rule two_perm)
  then have lk: "lower_keys py kw = [(''language'', PStr ''fr''), (''topic'', PInt 5)]
      \<or> lower_keys py kw = [(''topic'', PInt 5), (''language'', PStr ''fr'')]"
    by (auto simp: lower_keys_def lower_def char_lower_def)
  obtain opts where
      m: "mset opts = {#''format=json'', ''per_page=10000'', ''mrv=1''#}"
    and q: "query_options py
              (items_in (options_order py)
                 [(''format'', PStr ''json''), (''per_page'', PStr ''10000''), (''mrv'', PInt 1)])
            = Inr opts"
    using default_query [OF mset_items_in] by blast
  from lk have "generate_indicators_url py base_url ''indicator?'' kw
               = Inr (base_url @ ''fr/topic/5/indicator?'' @ join ''&'' opts)"
    by (auto simp: generate_indicators_url_def has_key_def path_option_def py_str_def
        str_of_int_def digit_def q)
  with m show ?thesis by blast
qed

theorem language_outermost_then_topic_witness:
  "generate_indicators_url example_python ''http://api.worldbank.org/'' ''indicator?''
     [(''topic'', PInt 5), (''language'', PStr ''fr'')]
   = Inr ''http://api.worldbank.org/fr/topic/5/indicator?per_page=10000&mrv=1&format=json''"
  using language_outermost_then_topic
    [of "[(''topic'', PInt 5), (''language'', PStr ''fr'')]" example_python "''http://api.worldbank.org/''"]
  by (simp add: generate_indicators_url_def lower_keys_def example_python_def
      items_in_insertion_order items_in_rotated_order lower_def char_lower_def has_key_def
      path_option_def option_value_def py_str_def str_of_int_def digit_def)

subsection \<open>Pagination\<close>

lemma pages_concat:
  "cs \<noteq> [] \<Longrightarrow> n = p + int (length cs) - 1 \<Longrightarrow> serves fetch url p n cs \<Longrightarrow>
   length cs \<le> depth \<Longrightarrow>
   get_api_response_as_json fetch depth url seen
     = (Inr (concat cs), seen @ page_urls url p (length cs))"
proof (induction cs arbitrary: url p seen depth)
  case Nil
  then show ?case by simp
next
  case (Cons c cs)
  from Cons.prems obtain d where depth: "depth = Suc d" and d: "length cs \<le> d"
    by (cases depth) auto
  show ?case
  proof (cases "cs = []")
    case True
    with Cons.prems show ?thesis
      by (simp add: depth)
  next
    case False
    have lt: "p < n" using Cons.prems False by (cases cs) auto
    have rec: "get_api_response_as_json fetch d (url @ ''&page='' @ str_of_int (p + 1)) (seen @ [url])
       = (Inr (concat cs),
          (seen @ [url]) @ page_urls (url @ ''&page='' @ str_of_int (p + 1)) (p + 1) (length cs))"
      using Cons.prems False d by (intro Cons.IH) auto
    show ?thesis
      using Cons.prems lt rec by (simp add: depth)
  qed
qed

lemma too_many_pages:
  "serves fetch url p n cs \<Longrightarrow> n = p + int (length cs) - 1 \<Longrightarrow> depth < length cs \<Longrightarrow>
   fst (get_api_response_as_json fetch depth url seen) = Inl RuntimeError"
proof (induction depth arbitrary: cs url p seen)
  case 0
  show ?case by simp
next
  case (Suc d)
  from Suc.prems obtain c cs' where cs: "cs = c # cs'" and d: "d < length cs'"
    by (cases cs) auto
  have lt: "p < n" using Suc.prems d by (cases cs') (auto simp: cs)
  obtain r s where
    rs: "get_api_response_as_json fetch d (url @ ''&page='' @ str_of_int (p + 1)) (seen @ [url]) = (r, s)"
    by (cases "get_api_response_as_json fetch d (url @ ''&page='' @ str_of_int (p + 1)) (seen @ [url])")
  have "fst (get_api_response_as_json fetch d (url @ ''&page='' @ str_of_int (p + 1)) (seen @ [url]))
          = Inl RuntimeError"
    using Suc.prems d by (intro Suc.IH [of _ "p + 1" cs']) (auto simp: cs)
  then have r: "r = Inl RuntimeError"
    unfolding rs by (simp only: fst_conv)
  show ?case
    using Suc.prems lt rs r by (simp add: cs)
qed

lemma serves_cong:
  "serves f url p n cs \<Longrightarrow> (\<And>u. length url \<le> length u \<Longrightarrow> g u = f u) \<Longrightarrow> serves g url p n cs"
proof (induction cs arbitrary: url p)
  case Nil
  show ?case by simp
next
  case (Cons c cs)
  have "serves g (url @ ''&page='' @ str_of_int (p + 1)) (p + 1) n cs"
    using Cons.prems by (intro Cons.IH) auto
  then show ?case using Cons.prems by simp
qed

lemma serves_server: "serves (server url p n cs) url p n cs"
proof (induction cs arbitrary: url p)
  case Nil
  show ?case by simp
next
  case (Cons c cs)
  have "serves (server url p n (c # cs)) (url @ ''&page='' @ str_of_int (p + 1)) (p + 1) n cs"
    by (rule serves_cong [OF Cons.IH]) auto
  then show ?case by simp
qed

text \<open>
  C6.  The claim: for every page sequence with page numbers increasing to the number
  of pages, the fetcher returns the concatenation of the pages.  Each page costs one
  nested call, and the interpreter allows only so many: for a server that hands out
  1001 well-formed pages and 1000 nested calls still allowed, the fetcher raises
  \<open>RuntimeError\<close>.
\<close>

theorem long_page_sequence_counterexample:
  "serves (server ''u?'' 1 1001 (replicate 1001 [])) ''u?'' 1 1001 (replicate 1001 [])
   \<and> fst (get_api_response_as_json (server ''u?'' 1 1001 (replicate 1001 [])) 1000 ''u?'' [])
       = Inl RuntimeError"
proof
  show "serves (server ''u?'' 1 1001 (replicate 1001 [])) ''u?'' 1 1001 (replicate 1001 [])"
    by (rule serves_server)
  then show "fst (get_api_response_as_json (server ''u?'' 1 1001 (replicate 1001 [])) 1000 ''u?'' [])
       = Inl RuntimeError"
    by (rule too_many_pages) simp_all
qed

text \<open>
  C6, as the source has it.  When the server hands out a non-empty sequence of pages
  whose page numbers increase by one up to the announced number of pages, and the
  interpreter still allows as many nested calls as there are pages, the paginated
  fetcher returns after asking for exactly these pages, with their contents
  concatenated in page order; the length of the result is the sum of the lengths of
  the pages.
\<close>

theorem pages_are_concatenated:
  assumes "cs \<noteq> []" and "serves fetch url p (p + int (length cs) - 1) cs"
    and "length cs \<le> depth"
  shows "get_api_response_as_json fetch depth url seen
           = (Inr (concat cs), seen @ page_urls url p (length cs))
       \<and> length (concat cs) = sum_list (map length cs)"
  using assms by (simp add: pages_concat length_concat)

theorem pages_are_concatenated_witness:
  "get_api_response_as_json (server ''u?'' 1 3 [[PInt 10], [PInt 20, PInt 21], []]) 3 ''u?'' []
   = (Inr [PInt 10, PInt 20, PInt 21], [''u?'', ''u?&page=2'', ''u?&page=2&page=3''])"
  using pages_are_concatenated
    [of "[[PInt 10], [PInt 20, PInt 21], []]"
        "server ''u?'' 1 3 [[PInt 10], [PInt 20, PInt 21], []]" "''u?''" 1 3 "[]"]
  by (simp add: str_of_int_def digit_def numeral_3_eq_3)

subsection \<open>The match filter\<close>

lemma fold_match_lookup:
  "distinct (map fst xs) \<Longrightarrow> fst ` set xs \<inter> fst ` set acc = {} \<Longrightarrow>
   map_of (fold (\<lambda>(k, v) m. if P v then AList.update k v m else m) xs acc) k =
     (case map_of xs k of
        Some v \<Rightarrow> if P v then Some v else None
      | None \<Rightarrow> map_of acc k)"
proof (induction xs arbitrary: acc)
  case Nil
  show ?case by simp
next
  case (Cons x xs)
  obtain a b where x: "x = (a, b)" by (cases x)
  have d: "distinct (map fst xs)" and a: "a \<notin> fst ` set xs" "a \<notin> fst ` set acc"
    and dis: "fst ` set xs \<inter> fst ` set acc = {}"
    using Cons.prems by (auto simp: x)
  have dis': "fst ` set xs \<inter> fst ` set (AList.update a b acc) = {}"
    using dis a by (auto simp: AList.dom_update)
  have nx: "map_of xs a = None" using a by (simp add: map_of_eq_None_iff)
  have na: "map_of acc a = None" using a by (simp add: map_of_eq_None_iff)
  show ?case
  proof (cases "P b")
    case True
    then show ?thesis
      using Cons.IH [OF d dis'] nx na
      by (auto simp: x AList.update_conv' split: option.splits)
  next
    case False
    then show ?thesis
      using Cons.IH [OF d dis] nx na
      by (auto simp: x split: option.splits)
  qed
qed

lemma match_data_lookup:
  "distinct (map fst d) \<Longrightarrow>
   map_of (match_data repr ss d) k =
     (case map_of d k of
        Some v \<Rightarrow> if contains (lower ss) (lower (py_str repr v)) then Some v else None
      | None \<Rightarrow> None)"
  by (simp add: match_data_def fold_match_lookup split: option.splits)

lemma fold_store_write:
  "fold (\<lambda>(k, v) h. if P v then h[length h0 := AList.update k v (h ! length h0)] else h) xs (h0 @ [acc])
     = h0 @ [fold (\<lambda>(k, v) m. if P v then AList.update k v m else m) xs acc]"
proof (induction xs arbitrary: acc)
  case Nil
  show ?case by simp
next
  case (Cons x xs)
  obtain a b where x: "x = (a, b)" by (cases x)
  show ?case
    using Cons.IH [of "AList.update a b acc"] Cons.IH [of acc]
    by (simp add: x nth_append list_update_append)
qed

lemma match_data_store_eq:
  "results < length h \<Longrightarrow>
   match_data_store repr ss results h = (length h, h @ [match_data repr ss (h ! results)])"
  by (simp add: match_data_store_def match_data_def Let_def fold_store_write nth_append)

text \<open>
  C10.  \<open>match_data\<close> returns a reference to a dictionary that did not exist before
  the call, every dictionary that existed is as it was, the argument among them, and
  the new dictionary binds exactly the keys of the argument whose value, formatted and
  lower-cased, contains the lower-cased match string, each to its value.
\<close>

theorem match_data_builds_new_mapping:
  assumes "results < length h" and "distinct (map fst (h ! results))"
  shows "fst (match_data_store repr ss results h) = length h
       \<and> take (length h) (snd (match_data_store repr ss results h)) = h
       \<and> snd (match_data_store repr ss results h) ! results = h ! results
       \<and> (\<forall>k. map_of (snd (match_data_store repr ss results h) ! length h) k =
             (case map_of (h ! results) k of
                Some v \<Rightarrow> if contains (lower ss) (lower (py_str repr v)) then Some v else None
              | None \<Rightarrow> None))"
  using assms by (simp add: match_data_store_eq nth_append match_data_lookup)

theorem match_data_builds_new_mapping_witness:
  "fst (match_data_store (\<lambda>v. []) ''ab'' 0 [[(PStr ''1'', PStr ''xABy''), (PStr ''2'', PStr ''b'')]]) = 1
   \<and> snd (match_data_store (\<lambda>v. []) ''ab'' 0 [[(PStr ''1'', PStr ''xABy''), (PStr ''2'', PStr ''b'')]]) ! 0
       = [(PStr ''1'', PStr ''xABy''), (PStr ''2'', PStr ''b'')]
   \<and> map_of (snd (match_data_store (\<lambda>v. []) ''ab'' 0 [[(PStr ''1'', PStr ''xABy''), (PStr ''2'', PStr ''b'')]]) ! 1) (PStr ''1'')
       = Some (PStr ''xABy'')
   \<and> map_of (snd (match_data_store (\<lambda>v. []) ''ab'' 0 [[(PStr ''1'', PStr ''xABy''), (PStr ''2'', PStr ''b'')]]) ! 1) (PStr ''2'')
       = None"
  using match_data_builds_new_mapping
    [of 0 "[[(PStr ''1'', PStr ''xABy''), (PStr ''2'', PStr ''b'')]]" "\<lambda>v. []" "''ab''"]
  by (simp add: py_str_def lower_def char_lower_def)

subsection \<open>The metadata calls\<close>

lemma get_api_response_pos:
  "0 < depth \<Longrightarrow>
   get_api_response_as_json fetch depth url seen =
     (case fetch url of
        Inl e \<Rightarrow> (Inl e, seen @ [url])
      | Inr env \<Rightarrow>
          if page env < pages env then
            (case get_api_response_as_json fetch (depth - 1)
                    (url @ ''&page='' @ str_of_int (page env + 1)) (seen @ [url]) of
               (r, seen') \<Rightarrow> (map_sum id (\<lambda>rest. content env @ rest) r, seen'))
          else (Inr (content env), seen @ [url]))"
proof -
  assume "0 < depth"
  then obtain d where d: "depth = Suc d" by (cases depth) auto
  show ?thesis unfolding d by (simp split: sum.splits)
qed

lemma last_record_Nil: "last_record key k [] = None"
  by (simp add: last_record_def)

lemma last_record_Cons:
  "last_record key k (r # recs) =
     (case last_record key k recs of
        Some r' \<Rightarrow> Some r'
      | None \<Rightarrow>
          (case getitem_str r key of
             Inr k' \<Rightarrow> if norm_key k' = norm_key k then Some r else None
           | Inl e \<Rightarrow> None))"
  by (auto simp: last_record_def split: list.splits sum.splits)

lemma tidy_lookup:
  "tidy key recs d0 = Inr d \<Longrightarrow>
   dict_get d k = (case last_record key k recs of None \<Rightarrow> dict_get d0 k | Some r \<Rightarrow> Some r)"
proof (induction recs arbitrary: d0)
  case Nil
  then show ?case by (simp add: last_record_Nil)
next
  case (Cons r recs)
  from Cons.prems obtain kr where kr: "getitem_str r key = Inr kr" "hashable kr"
    and rest: "tidy key recs (dict_set kr r d0) = Inr d"
    by (auto split: sum.splits if_splits)
  show ?case
    using Cons.IH [OF rest] kr
    by (auto simp: last_record_Cons dict_get_dict_set split: option.splits)
qed

lemma tidy_distinct:
  "tidy key recs d0 = Inr d \<Longrightarrow> distinct (map (\<lambda>e. norm_key (fst e)) d0) \<Longrightarrow>
   distinct (map (\<lambda>e. norm_key (fst e)) d)"
  by (induction recs arbitrary: d0) (auto simp: distinct_dict_set split: sum.splits if_splits)

lemma norm_distinct_keys:
  "distinct (map (\<lambda>e. norm_key (fst e)) d) \<Longrightarrow> distinct (map fst d)"
  by (induction d) force+

lemma update_fresh: "k \<notin> fst ` set al \<Longrightarrow> AList.update k v al = al @ [(k, v)]"
  by (induction al) auto

lemma fold_match_filter:
  "distinct (map fst xs) \<Longrightarrow> fst ` set xs \<inter> fst ` set acc = {} \<Longrightarrow>
   fold (\<lambda>(k, v) m. if P v then AList.update k v m else m) xs acc
     = acc @ filter (\<lambda>e. P (snd e)) xs"
proof (induction xs arbitrary: acc)
  case Nil
  show ?case by simp
next
  case (Cons x xs)
  obtain a b where x: "x = (a, b)" by (cases x)
  have d: "distinct (map fst xs)" and a: "a \<notin> fst ` set xs" "a \<notin> fst ` set acc"
    and dis: "fst ` set xs \<inter> fst ` set acc = {}"
    using Cons.prems by (auto simp: x)
  have dis': "fst ` set xs \<inter> fst ` set (acc @ [(a, b)]) = {}"
    using dis a by auto
  show ?case
  proof (cases "P b")
    case True
    then show ?thesis
      using Cons.IH [OF d dis'] a by (simp add: x update_fresh)
  next
    case False
    then show ?thesis
      using Cons.IH [OF d dis] by (simp add: x)
  qed
qed

lemma match_data_filter:
  "distinct (map fst d) \<Longrightarrow>
   match_data repr ss d = filter (\<lambda>e. contains (lower ss) (lower (py_str repr (snd e)))) d"
  by (simp add: match_data_def fold_match_filter)

lemma dict_get_None: "norm_key k \<notin> (\<lambda>e. norm_key (fst e)) ` set d \<Longrightarrow> dict_get d k = None"
  by (induction d) (auto simp: dict_get_def)

lemma dict_get_filter:
  "distinct (map (\<lambda>e. norm_key (fst e)) d) \<Longrightarrow>
   dict_get (filter (\<lambda>e. P (snd e)) d) k =
     (case dict_get d k of Some v \<Rightarrow> if P v then Some v else None | None \<Rightarrow> None)"
proof (induction d)
  case Nil
  show ?case by (simp add: dict_get_def)
next
  case (Cons a d)
  obtain k' v' where a: "a = (k', v')" by (cases a)
  have fresh: "norm_key k' \<notin> (\<lambda>e. norm_key (fst e)) ` set d"
    using Cons.prems by (simp add: a)
  have none: "dict_get (filter (\<lambda>e. P (snd e)) d) k = None" if "norm_key k = norm_key k'"
    using fresh that by (intro dict_get_None) auto
  have ih: "dict_get (filter (\<lambda>e. P (snd e)) d) k =
     (case dict_get d k of Some v \<Rightarrow> if P v then Some v else None | None \<Rightarrow> None)"
    using Cons by simp
  have step: "dict_get ((k', v') # d') k = (if norm_key k = norm_key k' then Some v' else dict_get d' k)"
    for d' by (auto simp: dict_get_def)
  show ?case
  proof (cases "norm_key k = norm_key k'")
    case True
    then show ?thesis using none by (simp add: a step)
  next
    case False
    then show ?thesis using ih by (simp add: a step)
  qed
qed

lemma match_filter_lookup:
  assumes "match_filter repr match t = Inr d" and "distinct (map (\<lambda>e. norm_key (fst e)) t)"
  shows "dict_get d k =
     (case dict_get t k of Some r \<Rightarrow> if passes repr match r then Some r else None | None \<Rightarrow> None)"
proof (cases "truthy match")
  case False
  with assms have "d = t" by (simp add: match_filter_def)
  moreover have "passes repr match r" for r
    using False by (cases match) (auto simp: passes_def truthy_def)
  ultimately show ?thesis by (simp split: option.splits)
next
  case True
  with assms obtain ss where m: "match = PStr ss" and d: "d = match_data repr ss t"
    by (cases match) (auto simp: match_filter_def)
  have ne: "ss \<noteq> []" using True by (simp add: m truthy_def)
  have "d = filter (\<lambda>e. contains (lower ss) (lower (py_str repr (snd e)))) t"
    unfolding d by (rule match_data_filter) (rule norm_distinct_keys [OF assms(2)])
  then show ?thesis
    using dict_get_filter [OF assms(2), of "\<lambda>v. contains (lower ss) (lower (py_str repr v))" k] ne
    by (simp add: m passes_def split: option.splits)
qed

lemma get_indicator_data_InrD:
  assumes "get_indicator_data py fetch base_url api_ids rest_url response_key match kw seen
             = (Inr d, seen')"
  shows "\<exists>url recs t. get_api_response_as_json fetch (frames py) url seen = (Inr recs, seen')
         \<and> tidy response_key recs [] = Inr t \<and> match_filter (container_repr py) match t = Inr d"
proof -
  from assms obtain u1 where u1: "endpoint py api_ids rest_url = Inr u1"
    by (cases "endpoint py api_ids rest_url") (simp_all add: get_indicator_data_def)
  from assms u1 obtain u2 where u2: "generate_indicators_url py base_url u1 kw = Inr u2"
    by (cases "generate_indicators_url py base_url u1 kw") (simp_all add: get_indicator_data_def)
  obtain r l where f: "get_api_response_as_json fetch (frames py) u2 seen = (r, l)"
    by (cases "get_api_response_as_json fetch (frames py) u2 seen")
  from assms u1 u2 f obtain recs where r: "r = Inr recs" and l: "l = seen'"
    by (cases r) (auto simp: get_indicator_data_def split: sum.splits)
  from assms u1 u2 f r obtain t where t: "tidy response_key recs [] = Inr t"
    by (cases "tidy response_key recs []") (auto simp: get_indicator_data_def)
  from assms u1 u2 f r t have "match_filter (container_repr py) match t = Inr d"
    by (simp add: get_indicator_data_def)
  with f r l t show ?thesis by blast
qed

lemmas indicators_eval =
  get_indicator_data_def get_api_response_pos endpoint_def truthy_def
  generate_indicators_url_def lower_keys_def example_python_def
  items_in_insertion_order items_in_rotated_order has_key_def path_option_def
  option_value_def py_str_def str_of_int_def digit_def getitem_str_def dict_get_def
  match_filter_def match_data_def record_text_def lower_def char_lower_def

lemma two_records_call:
  "get_indicator_data example_python
     (\<lambda>u. Inr \<lparr>page = 1, pages = 1, content =
        [PDict [(PStr ''id'', PStr ''1''), (PStr ''value'', PStr ''first'')],
         PDict [(PStr ''id'', PStr ''1''), (PStr ''value'', PStr ''second'')]]\<rparr>)
     ''http://api.worldbank.org/'' PNone ''topic'' ''id'' PNone [] []
   = (Inr [(PStr ''1'', PDict [(PStr ''id'', PStr ''1''), (PStr ''value'', PStr ''second'')])],
      [''http://api.worldbank.org/topic?per_page=10000&mrv=1&format=json''])"
  by (simp add: indicators_eval)

lemma two_records_call_matching:
  "get_indicator_data example_python
     (\<lambda>u. Inr \<lparr>page = 1, pages = 1, content =
        [PDict [(PStr ''id'', PStr ''1''), (PStr ''value'', PStr ''first'')],
         PDict [(PStr ''id'', PStr ''1''), (PStr ''value'', PStr ''second'')]]\<rparr>)
     ''http://api.worldbank.org/'' PNone ''topic'' ''id'' (PStr ''first'') [] []
   = (Inr [], [''http://api.worldbank.org/topic?per_page=10000&mrv=1&format=json''])"
  by (simp add: indicators_eval)

text \<open>
  C1.  The claim: when records share the value at the response key, the mapping binds
  that value to the first of them.  The loop assigns \<open>tidier_data[key] = data\<close> for
  every record, so a later record replaces an earlier one, and the match filter sees
  only what is left: of two records with the id \<open>1\<close> the call returns the second,
  and with the match string \<open>first\<close>, which the first record contains and the
  second does not, it returns no record at all.
\<close>

theorem repeated_key_first_record_counterexample:
  "fst (get_indicator_data example_python
     (\<lambda>u. Inr \<lparr>page = 1, pages = 1, content =
        [PDict [(PStr ''id'', PStr ''1''), (PStr ''value'', PStr ''first'')],
         PDict [(PStr ''id'', PStr ''1''), (PStr ''value'', PStr ''second'')]]\<rparr>)
     ''http://api.worldbank.org/'' PNone ''topic'' ''id'' PNone [] [])
   = Inr [(PStr ''1'', PDict [(PStr ''id'', PStr ''1''), (PStr ''value'', PStr ''second'')])]
   \<and> PDict [(PStr ''id'', PStr ''1''), (PStr ''value'', PStr ''second'')]
       \<noteq> PDict [(PStr ''id'', PStr ''1''), (PStr ''value'', PStr ''first'')]
   \<and> fst (get_indicator_data example_python
     (\<lambda>u. Inr \<lparr>page = 1, pages = 1, content =
        [PDict [(PStr ''id'', PStr ''1''), (PStr ''value'', PStr ''first'')],
         PDict [(PStr ''id'', PStr ''1''), (PStr ''value'', PStr ''second'')]]\<rparr>)
     ''http://api.worldbank.org/'' PNone ''topic'' ''id'' (PStr ''first'') [] [])
   = Inr []
   \<and> passes record_text (PStr ''first'')
        (PDict [(PStr ''id'', PStr ''1''), (PStr ''value'', PStr ''first'')])"
  by (simp add: two_records_call two_records_call_matching passes_def py_str_def record_text_def
      lower_def char_lower_def)

text \<open>
  C1, as the source has it.  When the metadata call returns a mapping, a key is bound
  in it exactly when the last record of the fetched pages that carries this key (as
  Python compares keys) passes the match filter of the call, and it is bound to that
  last record; without a match string every record passes.
\<close>

theorem repeated_key_keeps_last_record:
  assumes "get_indicator_data py fetch base_url api_ids rest_url response_key match kw seen
             = (Inr d, seen')"
  shows "\<exists>url recs.
           get_api_response_as_json fetch (frames py) url seen = (Inr recs, seen')
         \<and> (\<forall>k. dict_get d k =
                  (case last_record response_key k recs of
                     None \<Rightarrow> None
                   | Some r \<Rightarrow> if passes (container_repr py) match r then Some r else None))"
proof -
  from get_indicator_data_InrD [OF assms] obtain url recs t where
      fetched: "get_api_response_as_json fetch (frames py) url seen = (Inr recs, seen')"
    and t: "tidy response_key recs [] = Inr t"
    and d: "match_filter (container_repr py) match t = Inr d"
    by blast
  have dist: "distinct (map (\<lambda>e. norm_key (fst e)) t)"
    using tidy_distinct [OF t] by simp
  have look: "dict_get t k = last_record response_key k recs" for k
    using tidy_lookup [OF t, of k] by (simp add: dict_get_def split: option.splits)
  have "dict_get d k =
          (case last_record response_key k recs of
             None \<Rightarrow> None
           | Some r \<Rightarrow> if passes (container_repr py) match r then Some r else None)" for k
    using match_filter_lookup [OF d dist, of k] by (simp only: look)
  with fetched show ?thesis by (intro exI conjI allI)
qed

theorem repeated_key_keeps_last_record_witness:
  "\<exists>url recs.
     get_api_response_as_json
       (\<lambda>u. Inr \<lparr>page = 1, pages = 1, content =
          [PDict [(PStr ''id'', PStr ''1''), (PStr ''value'', PStr ''first'')],
           PDict [(PStr ''id'', PStr ''1''), (PStr ''value'', PStr ''second'')]]\<rparr>)
       (frames example_python) url []
       = (Inr recs, [''http://api.worldbank.org/topic?per_page=10000&mrv=1&format=json''])
   \<and> last_record ''id'' (PStr ''1'') recs
       = Some (PDict [(PStr ''id'', PStr ''1''), (PStr ''value'', PStr ''second'')])"
proof -
  from repeated_key_keeps_last_record [OF two_records_call] obtain url recs where
    f: "get_api_response_as_json
       (\<lambda>u. Inr \<lparr>page = 1, pages = 1, content =
          [PDict [(PStr ''id'', PStr ''1''), (PStr ''value'', PStr ''first'')],
           PDict [(PStr ''id'', PStr ''1''), (PStr ''value'', PStr ''second'')]]\<rparr>)
       (frames example_python) url []
       = (Inr recs, [''http://api.worldbank.org/topic?per_page=10000&mrv=1&format=json''])"
    and l: "\<forall>k. dict_get [(PStr ''1'', PDict [(PStr ''id'', PStr ''1''), (PStr ''value'', PStr ''second'')])] k =
                  (case last_record ''id'' k recs of
                     None \<Rightarrow> None
                   | Some r \<Rightarrow> if passes (container_repr example_python) PNone r then Some r else None)"
    by (elim exE conjE)
  from l [rule_format, of "PStr ''1''"] have "last_record ''id'' (PStr ''1'') recs
       = Some (PDict [(PStr ''id'', PStr ''1''), (PStr ''value'', PStr ''second'')])"
    by (simp add: dict_get_def passes_def split: option.splits if_splits)
  with f show ?thesis by (intro exI conjI)
qed

text \<open>The ids \<open>1\<close> and \<open>True\<close> are equal in Python: they are one key, bound to the later record.\<close>

lemma equal_ids_are_one_key:
  "tidy ''id'' [PDict [(PStr ''id'', PInt 1)], PDict [(PStr ''id'', PBool True)]] []
     = Inr [(PInt 1, PDict [(PStr ''id'', PBool True)])]"
  by (simp add: getitem_str_def dict_get_def)

subsection \<open>The country call\<close>

lemma items_in_Nil_iff: "items_in ord d = [] \<longleftrightarrow> d = []"
  using mset_items_in [of ord d] by (metis mset_zero_iff)

lemma truthy_iter_nonempty:
  "truthy v \<Longrightarrow> py_iter py v = Inr xs \<Longrightarrow> xs \<noteq> []"
  by (cases v) (auto simp: truthy_def py_iter_def items_in_Nil_iff)

lemma get_countries_truthy:
  assumes "truthy country_codes"
  shows "\<exists>e. get_countries py fetch base_url country_codes match kw seen = (Inl e, seen)"
proof (cases "py_iter py country_codes")
  case (Inl e)
  with assms show ?thesis by (simp add: get_countries_def)
next
  case (Inr xs)
  with assms have "xs \<noteq> []" by (rule truthy_iter_nonempty)
  then obtain c cs where "xs = c # cs" by (cases xs) auto
  with assms Inr show ?thesis by (simp add: get_countries_def)
qed

lemma one_country_call:
  "get_countries example_python
     (\<lambda>u. Inr \<lparr>page = 1, pages = 1, content =
        [PDict [(PStr ''iso2Code'', PStr ''GB''), (PStr ''name'', PStr ''United Kingdom'')]]\<rparr>)
     ''http://api.worldbank.org/'' PNone PNone [] []
   = (Inr [(PStr ''GB'', PDict [(PStr ''iso2Code'', PStr ''GB''), (PStr ''name'', PStr ''United Kingdom'')])],
      [''http://api.worldbank.org/country?per_page=10000&mrv=1&format=json''])"
  by (simp add: get_countries_def indicators_eval)

text \<open>
  C8.  For a non-empty list of country codes \<open>get_countries\<close> raises \<open>NameError\<close>
  and the log of fetched URLs is as it was before the call: no request was issued.  A
  call that returns a mapping was given country codes that are absent or empty.
\<close>

theorem get_countries_fails_on_codes:
  "(codes \<noteq> [] \<longrightarrow>
      get_countries py fetch base_url (PList codes) match kw seen = (Inl NameError, seen))
   \<and> (get_countries py fetch base_url country_codes match kw seen = (Inr d, seen')
        \<longrightarrow> \<not> truthy country_codes)"
proof (intro conjI impI)
  assume "codes \<noteq> []"
  then obtain c cs where "codes = c # cs" by (cases codes) auto
  then show "get_countries py fetch base_url (PList codes) match kw seen = (Inl NameError, seen)"
    by (simp add: get_countries_def truthy_def py_iter_def)
next
  assume ok: "get_countries py fetch base_url country_codes match kw seen = (Inr d, seen')"
  show "\<not> truthy country_codes"
  proof
    assume "truthy country_codes"
    from get_countries_truthy [OF this, of py fetch base_url match kw seen] ok
    show False by auto
  qed
qed

theorem get_countries_fails_on_codes_witness:
  "get_countries example_python
     (\<lambda>u. Inr \<lparr>page = 1, pages = 1, content =
        [PDict [(PStr ''iso2Code'', PStr ''GB''), (PStr ''name'', PStr ''United Kingdom'')]]\<rparr>)
     ''http://api.worldbank.org/'' (PList [PStr ''GB'']) PNone [] []
   = (Inl NameError, [])
   \<and> get_countries example_python
     (\<lambda>u. Inr \<lparr>page = 1, pages = 1, content =
        [PDict [(PStr ''iso2Code'', PStr ''GB''), (PStr ''name'', PStr ''United Kingdom'')]]\<rparr>)
     ''http://api.worldbank.org/'' PNone PNone [] []
   = (Inr [(PStr ''GB'', PDict [(PStr ''iso2Code'', PStr ''GB''), (PStr ''name'', PStr ''United Kingdom'')])],
      [''http://api.worldbank.org/country?per_page=10000&mrv=1&format=json''])
   \<and> \<not> truthy PNone"
proof -
  have ne: "[PStr ''GB''] \<noteq> []" by simp
  note inst = get_countries_fails_on_codes
    [of "[PStr ''GB'']" example_python
        "\<lambda>u. Inr \<lparr>page = 1, pages = 1, content =
        [PDict [(PStr ''iso2Code'', PStr ''GB''), (PStr ''name'', PStr ''United Kingdom'')]]\<rparr>"
        "''http://api.worldbank.org/''" PNone "[]" "[]" PNone
        "[(PStr ''GB'', PDict [(PStr ''iso2Code'', PStr ''GB''), (PStr ''name'', PStr ''United Kingdom'')])]"
        "[''http://api.worldbank.org/country?per_page=10000&mrv=1&format=json'']"]
  from inst ne have a: "get_countries example_python
     (\<lambda>u. Inr \<lparr>page = 1, pages = 1, content =
        [PDict [(PStr ''iso2Code'', PStr ''GB''), (PStr ''name'', PStr ''United Kingdom'')]]\<rparr>)
     ''http://api.worldbank.org/'' (PList [PStr ''GB'']) PNone [] []
   = (Inl NameError, [])"
    by (elim conjE) (erule mp)
  from inst one_country_call have b: "\<not> truthy PNone"
    by (elim conjE) (erule mp)
  from a one_country_call b show ?thesis by (intro conjI)
qed

subsection \<open>Modelled climate data\<close>











lemma items_in_single: "items_in ord [x] = [x]"
  using mset_items_in [of ord "[x]"] by simp

lemmas climate_eval =
  answering_def united_kingdom_def get_modelled_def get_modelled_ensemble_def get_modelled_gcm_def
  ensemble_urls_def ensemble_url_def ensemble_dates_def gcm_urls_def gcm_url_def
  valid_dates_def date_range_def loc_type_def
  ensemble_response_def ensemble_record_def gcm_response_def gcm_record_def
  store_observation_def store_values_def getitem_int_def getitem_str_def setitem_int_def
  percentile_filter_def gcm_filter_def sres_filter_def truthy_def py_iter_def py_str_def
  convert_to_alpha2_def convert_to_alpha3_def upper_def lower_def char_upper_def char_lower_def
  str_of_int_def digit_def dict_get_def items_in_single


text \<open>
  C3.  The claim: with a non-empty percentile allow-list the ensemble call returns the
  model keys whose percentile is listed, without raising.  The filter loop reads the
  unbound name \<open>ensemble_percentiles\<close>: as soon as one observation has been folded,
  the call raises \<open>NameError\<close>, under every interpreter, here for the allow-list
  \<open>[50]\<close> and a response that holds the percentile 50.
\<close>

theorem ensemble_percentile_filter_raises:
  "get_modelled_ensemble py
     (answering (PList [PDict [(PStr ''percentile'', PInt 50), (PStr ''fromYear'', PInt 1920),
                               (PStr ''annualVal'', PList [PInt 7])]]))
     ''pr'' ''annualavg'' [PStr ''GBR''] PNone (PList [PInt 50])
   = Inl NameError"
  by (simp add: climate_eval)

text \<open>
  C4.  The claim: \<open>get_precip_modelled\<close> and \<open>get_temp_modelled\<close> forward the
  caller's \<open>ensemble_percentile\<close>.  Both pass the literal \<open>None\<close>: asked for the
  percentile 10 only, they return the percentile 50 the server sent, which is not what
  the internal call gives when the caller's value is forwarded to it.
\<close>

theorem modelled_calls_drop_percentile:
  "get_precip_modelled py
     (answering (PList [PDict [(PStr ''percentile'', PInt 50), (PStr ''fromYear'', PInt 1920),
                               (PStr ''annualVal'', PList [PInt 7])]]))
     ''aavg'' [PStr ''GBR''] (PStr ''ensemble'') PNone (PList [PInt 10])
   = Inr [(PTuple [PStr ''ensemble'', PInt 50], [(PStr ''GB'', [(PInt 1920, PInt 7)])])]
   \<and> get_temp_modelled py
     (answering (PList [PDict [(PStr ''percentile'', PInt 50), (PStr ''fromYear'', PInt 1920),
                               (PStr ''annualVal'', PList [PInt 7])]]))
     ''aavg'' [PStr ''GBR''] (PStr ''ensemble'') PNone (PList [PInt 10])
   = Inr [(PTuple [PStr ''ensemble'', PInt 50], [(PStr ''GB'', [(PInt 1920, PInt 7)])])]
   \<and> get_modelled py
     (answering (PList [PDict [(PStr ''percentile'', PInt 50), (PStr ''fromYear'', PInt 1920),
                               (PStr ''annualVal'', PList [PInt 7])]]))
     ''pr'' ''aavg'' [PStr ''GBR''] (PStr ''ensemble'') PNone (PList [PInt 10])
   = Inl NameError"
  by (simp add: get_precip_modelled_def get_temp_modelled_def climate_eval)

end
